theory Spec2Isabelle
  imports Complex_Main "HOL-Library.Sublist"
begin

section \<open>Python values used by the assistant\<close>

text \<open>
  Query texts, handler names and answers are Python \<open>str\<close> values. They are modelled as
  HOL strings over the ASCII range: \<open>str.lower\<close>, \<open>str.upper\<close> and \<open>str.strip\<close> act on
  ASCII letters and ASCII white space as Python does, and every other character is
  left as it is.

  An exception is a value carrying its class name and \<open>str(e)\<close>; a call that may raise
  returns \<open>exn + 'a\<close> with \<open>Inl\<close> for the raise.
\<close>

datatype exn = Exn (exn_class: string) (exn_str: string)

definition ascii_lowercase :: string where
  "ascii_lowercase = ''abcdefghijklmnopqrstuvwxyz''"

definition ascii_uppercase :: string where
  "ascii_uppercase = ''ABCDEFGHIJKLMNOPQRSTUVWXYZ''"

definition lower_char :: "char \<Rightarrow> char" where
  "lower_char c = (case map_of (zip ascii_uppercase ascii_lowercase) c of
                     Some l \<Rightarrow> l | None \<Rightarrow> c)"

definition upper_char :: "char \<Rightarrow> char" where
  "upper_char c = (case map_of (zip ascii_lowercase ascii_uppercase) c of
                     Some u \<Rightarrow> u | None \<Rightarrow> c)"

definition lower :: "string \<Rightarrow> string" where
  "lower s = map lower_char s"

definition upper :: "string \<Rightarrow> string" where
  "upper s = map upper_char s"

text \<open>The ASCII characters for which \<open>str.isspace\<close> holds: tab, line feed, vertical tab,
  form feed, carriage return, the four separators 0x1C..0x1F and the space.\<close>

definition whitespace :: string where
  "whitespace = [CHR 0x09, CHR 0x0A, CHR 0x0B, CHR 0x0C, CHR 0x0D,
                 CHR 0x1C, CHR 0x1D, CHR 0x1E, CHR 0x1F, CHR 0x20]"

definition rstrip_chars :: "string \<Rightarrow> string \<Rightarrow> string" where
  "rstrip_chars cs s = rev (dropWhile (\<lambda>c. c \<in> set cs) (rev s))"

definition strip :: "string \<Rightarrow> string" where
  "strip s = rstrip_chars whitespace (dropWhile (\<lambda>c. c \<in> set whitespace) s)"

text \<open>\<open>s.startswith(k)\<close> and the substring test \<open>k in s\<close>.\<close>

fun startswith :: "string \<Rightarrow> string \<Rightarrow> bool" where
  "startswith s [] = True"
| "startswith [] (k # ks) = False"
| "startswith (c # s) (k # ks) = (c = k \<and> startswith s ks)"

fun contains :: "string \<Rightarrow> string \<Rightarrow> bool" where
  "contains [] k = startswith [] k"
| "contains (c # s) k = (startswith (c # s) k \<or> contains s k)"

text \<open>\<open>str(i)\<close> for a natural number, \<open>sep.join(xs)\<close>, the text after the first
  occurrence of a character (\<open>s.split(c, 1)[1]\<close>, which raises IndexError when \<open>c\<close> does
  not occur) and the text before the last occurrence of a separator
  (\<open>s.rsplit(sep, 1)[0]\<close>, the whole text when \<open>sep\<close> does not occur).\<close>

fun str_nat :: "nat \<Rightarrow> string" where
  "str_nat n = (if n < 10 then [''0123456789'' ! n]
                else str_nat (n div 10) @ [''0123456789'' ! (n mod 10)])"

declare str_nat.simps [simp del]

fun join :: "string \<Rightarrow> string list \<Rightarrow> string" where
  "join sep [] = []"
| "join sep [x] = x"
| "join sep (x # y # ys) = x @ sep @ join sep (y # ys)"

fun after_first :: "char \<Rightarrow> string \<Rightarrow> string option" where
  "after_first c [] = None"
| "after_first c (x # xs) = (if x = c then Some xs else after_first c xs)"

fun before_last :: "string \<Rightarrow> string \<Rightarrow> string option" where
  "before_last sep [] = (if startswith [] sep then Some [] else None)"
| "before_last sep (c # s) =
     (case before_last sep s of
        Some r \<Rightarrow> Some (c # r)
      | None \<Rightarrow> if startswith (c # s) sep then Some [] else None)"

definition rsplit_head :: "string \<Rightarrow> string \<Rightarrow> string" where
  "rsplit_head sep s = (case before_last sep s of Some r \<Rightarrow> r | None \<Rightarrow> s)"

section \<open>External collaborators\<close>

text \<open>
  Every request to the Language Model Gateway is \<open>client.messages.create\<close> with one user
  message, an f-string. A request is modelled by the template that produced it and the
  values interpolated into it. The response is the list of the texts of its content
  blocks, or the call raises.
\<close>

datatype request =
    RoutePrompt string
  | SqlPrompt string string
  | NarratePrompt string string
  | PolicyPrompt string string
  | WebPrompt string string

text \<open>A pandas DataFrame, seen through the two attributes the code reads:
  \<open>df.empty\<close> and \<open>df.to_string(index=False)\<close>.\<close>

record dataframe =
  df_empty :: bool
  df_to_string :: string

text \<open>A Tavily result: a dict whose keys \<open>title\<close>, \<open>url\<close>, \<open>content\<close> may be missing.\<close>

record hit =
  hit_title :: "string option"
  hit_url :: "string option"
  hit_content :: "string option"

type_synonym embedding = "rat list"

text \<open>An item of the Chroma collection: id, document text, embedding and the metadata
  dict \<open>{"source": ..., "chunk_id": ...}\<close>.\<close>

record entry =
  entry_id :: string
  entry_document :: string
  entry_embedding :: embedding
  entry_source :: string
  entry_chunk_id :: nat

text \<open>A file matched by \<open>documents_dir.glob("*.txt")\<close>: its name, its stem and the result
  of reading it.\<close>

record document =
  doc_name :: string
  doc_stem :: string
  doc_text :: "exn + string"

text \<open>A LangChain document returned by the conversational chain, with
  \<open>doc.metadata.get('source')\<close>, and the chain's output dict.\<close>

record source_document =
  page_content :: string
  metadata_source :: "string option"

record chain_output =
  chain_answer :: string
  chain_source_documents :: "source_document list"

datatype message = HumanMessage string | AIMessage string

text \<open>
  The world outside the process: the gateway, the relational store, the search
  provider, the embedding model, the text splitter, the nearest-neighbour search of
  the collection, the construction and the run of the LangChain conversational chain,
  and the documents directory: its configured path and the files in it (\<open>None\<close> when
  the directory does not exist).
\<close>

record world =
  messages_create :: "request \<Rightarrow> exn + string list"
  read_sql_query :: "string \<Rightarrow> exn + dataframe"
  tavily_search :: "string \<Rightarrow> exn + hit list option"
  encode :: "string list \<Rightarrow> exn + embedding list"
  split_text :: "string \<Rightarrow> string list"
  collection_query :: "entry list \<Rightarrow> embedding \<Rightarrow> nat \<Rightarrow> exn + entry list"
  chain_setup :: "exn option"
  run_chain :: "message list \<Rightarrow> string \<Rightarrow> exn + chain_output"
  documents_path :: string
  documents_dir :: "document list option"

text \<open>The calls that leave a component, in the order they are made.\<close>

datatype component = Router | SqlAgent | RagAgent | WebAgent

datatype event =
    Invoke component string
  | GatewayCall request
  | SqlExecute string
  | TavilySearch string
  | Encode "string list"
  | CollectionAdd "string list"
  | CollectionQuery nat
  | ChainCall string

text \<open>\<open>response.content[0].text\<close>: an empty content list raises IndexError.\<close>

definition first_text :: "string list \<Rightarrow> exn + string" where
  "first_text content =
     (case content of
        [] \<Rightarrow> Inl (Exn ''IndexError'' ''list index out of range'')
      | block # _ \<Rightarrow> Inr block)"

definition generate :: "world \<Rightarrow> request \<Rightarrow> (exn + string) \<times> event list" where
  "generate w req =
     (case messages_create w req of
        Inl e \<Rightarrow> (Inl e, [GatewayCall req])
      | Inr content \<Rightarrow> (first_text content, [GatewayCall req]))"

section \<open>Router (query\_router.py)\<close>

definition sql_keywords :: "string list" where
  "sql_keywords = [''show'', ''list'', ''compare'', ''average'', ''sum'', ''count'',
                   ''revenue'', ''profit'', ''margin'', ''companies'', ''ratio'',
                   ''financial'', ''metric'']"

definition policy_keywords :: "string list" where
  "policy_keywords = [''policy'', ''approval'', ''procedure'', ''guideline'', ''process'',
                      ''requirement'', ''should we'', ''how to'', ''recognize'']"

text \<open>The block under \<open># Default routing logic\<close> of \<open>QueryRouter.route\<close>.\<close>

definition default_routing :: "string \<Rightarrow> string" where
  "default_routing query =
     (let query_lower = lower query in
      if list_ex (\<lambda>keyword. contains query_lower keyword) sql_keywords then ''SQL''
      else if list_ex (\<lambda>keyword. contains query_lower keyword) policy_keywords then ''RAG''
      else ''WEB'')"

text \<open>
  \<open>QueryRouter.route\<close>. The gateway call is not inside a \<open>try\<close>: when it raises, or the
  response has no content block, the exception leaves \<open>route\<close>.
\<close>

definition route :: "world \<Rightarrow> string \<Rightarrow> (exn + string) \<times> event list" where
  "route w query =
     (case generate w (RoutePrompt query) of
        (Inl e, evs) \<Rightarrow> (Inl e, evs)
      | (Inr text, evs) \<Rightarrow>
          (let route = upper (strip text) in
           if route \<notin> set [''SQL'', ''RAG'', ''WEB'']
           then (Inr (default_routing query), evs)
           else (Inr route, evs)))"

section \<open>Structured-query handler (sql\_agent.py)\<close>

record sql_result =
  sql_answer :: string
  sql_sql_query :: "string option"
  sql_dataframe :: "dataframe option"
  sql_error :: "string option"

text \<open>\<open>SQLAgent._generate_sql\<close>: one generation call, then the markdown fence is removed.\<close>

definition clean_sql :: "string \<Rightarrow> exn + string" where
  "clean_sql text =
     (let sql_query = strip text in
      if startswith sql_query ''```''
      then (case after_first (CHR 0x0A) sql_query of
              None \<Rightarrow> Inl (Exn ''IndexError'' ''list index out of range'')
            | Some rest \<Rightarrow> Inr (rstrip_chars '';'' (strip (rsplit_head ''```'' rest))))
      else Inr (rstrip_chars '';'' (strip sql_query)))"

definition generate_sql :: "world \<Rightarrow> string \<Rightarrow> string \<Rightarrow> (exn + string) \<times> event list" where
  "generate_sql w schema question =
     (case generate w (SqlPrompt schema question) of
        (Inl e, evs) \<Rightarrow> (Inl e, evs)
      | (Inr text, evs) \<Rightarrow> (clean_sql text, evs))"

text \<open>\<open>SQLAgent._execute_query\<close>: a failure of the store is raised again with a prefix.\<close>

definition execute_query :: "world \<Rightarrow> string \<Rightarrow> (exn + dataframe) \<times> event list" where
  "execute_query w sql_query =
     (case read_sql_query w sql_query of
        Inl e \<Rightarrow> (Inl (Exn ''Exception'' (''Query execution error: '' @ exn_str e)),
                  [SqlExecute sql_query])
      | Inr df \<Rightarrow> (Inr df, [SqlExecute sql_query]))"

text \<open>\<open>SQLAgent._format_results\<close>: an empty table is answered without a generation call.\<close>

definition format_results :: "world \<Rightarrow> dataframe \<Rightarrow> string \<Rightarrow> (exn + string) \<times> event list" where
  "format_results w df question =
     (if df_empty df then (Inr ''No results found for your query.'', [])
      else generate w (NarratePrompt question (df_to_string df)))"

definition sql_failure :: "exn \<Rightarrow> sql_result" where
  "sql_failure e =
     \<lparr>sql_answer = ''I encountered an error: '' @ exn_str e,
      sql_sql_query = None, sql_dataframe = None, sql_error = Some (exn_str e)\<rparr>"

text \<open>\<open>SQLAgent.query\<close>: the three steps inside one \<open>try\<close>.\<close>

definition sql_agent_query :: "world \<Rightarrow> string \<Rightarrow> string \<Rightarrow> sql_result \<times> event list" where
  "sql_agent_query w schema question =
     (case generate_sql w schema question of
        (Inl e, ev1) \<Rightarrow> (sql_failure e, ev1)
      | (Inr sql_query, ev1) \<Rightarrow>
          (case execute_query w sql_query of
             (Inl e, ev2) \<Rightarrow> (sql_failure e, ev1 @ ev2)
           | (Inr df, ev2) \<Rightarrow>
               (case format_results w df question of
                  (Inl e, ev3) \<Rightarrow> (sql_failure e, ev1 @ ev2 @ ev3)
                | (Inr answer, ev3) \<Rightarrow>
                    (\<lparr>sql_answer = answer, sql_sql_query = Some sql_query,
                      sql_dataframe = Some df, sql_error = None\<rparr>,
                     ev1 @ ev2 @ ev3))))"

section \<open>Web-search handler (web\_agent.py)\<close>

record web_result =
  web_answer :: string
  web_sources :: "(string option \<times> string option) list"
  web_search_results :: "hit list"
  web_error :: "string option"

text \<open>\<open>WebAgent._search_web\<close>: a failure of the provider is caught and gives no result.\<close>

definition search_web :: "world \<Rightarrow> bool \<Rightarrow> string \<Rightarrow> hit list \<times> event list" where
  "search_web w search_enabled query =
     (if \<not> search_enabled then ([], [])
      else (case tavily_search w query of
              Inl e \<Rightarrow> ([], [TavilySearch query])
            | Inr response \<Rightarrow>
                ((case response of None \<Rightarrow> [] | Some results \<Rightarrow> results),
                 [TavilySearch query])))"

definition get_or :: "string option \<Rightarrow> string \<Rightarrow> string" where
  "get_or v d = (case v of None \<Rightarrow> d | Some x \<Rightarrow> x)"

definition format_search_results :: "hit list \<Rightarrow> string" where
  "format_search_results results =
     (if results = [] then ''No search results found.''
      else join [CHR 0x0A]
        (map (\<lambda>(i, result).
                ''['' @ str_nat i @ ''] '' @ get_or (hit_title result) ''No title'' @ [CHR 0x0A] @
                ''URL: '' @ get_or (hit_url result) ''N/A'' @ [CHR 0x0A] @
                ''Content: '' @ get_or (hit_content result) ''No content'' @ [CHR 0x0A])
             (enumerate 1 results)))"

definition web_not_configured :: web_result where
  "web_not_configured =
     \<lparr>web_answer = ''Web search is not configured. Please add TAVILY_API_KEY to your .env file. You can get a free API key at https://tavily.com'',
      web_sources = [], web_search_results = [],
      web_error = Some ''Web search not configured''\<rparr>"

definition web_no_results :: web_result where
  "web_no_results =
     \<lparr>web_answer = ''I couldn't find any relevant information on the web for your query.'',
      web_sources = [], web_search_results = [], web_error = None\<rparr>"

definition web_failure :: "exn \<Rightarrow> web_result" where
  "web_failure e =
     \<lparr>web_answer = ''I encountered an error while searching: '' @ exn_str e,
      web_sources = [], web_search_results = [], web_error = Some (exn_str e)\<rparr>"

text \<open>\<open>WebAgent.query\<close>.\<close>

definition web_agent_query :: "world \<Rightarrow> bool \<Rightarrow> string \<Rightarrow> web_result \<times> event list" where
  "web_agent_query w search_enabled question =
     (if \<not> search_enabled then (web_not_configured, [])
      else (case search_web w search_enabled question of
              (search_results, ev1) \<Rightarrow>
                if search_results = [] then (web_no_results, ev1)
                else (case generate w (WebPrompt (format_search_results search_results) question) of
                        (Inl e, ev2) \<Rightarrow> (web_failure e, ev1 @ ev2)
                      | (Inr answer, ev2) \<Rightarrow>
                          (\<lparr>web_answer = answer,
                            web_sources = map (\<lambda>r. (hit_title r, hit_url r)) search_results,
                            web_search_results = search_results,
                            web_error = None\<rparr>,
                           ev1 @ ev2))))"

section \<open>Retrieval handler (rag\_agent.py)\<close>

text \<open>
  The agent's state: the items of the persistent Chroma collection in insertion order,
  whether \<open>self.conversation_chain\<close> has been built, and \<open>self.memory\<close> (\<open>None\<close> until the
  chain is built, then the list of messages of the conversation buffer).
\<close>

record rag_agent =
  collection :: "entry list"
  conversation_chain :: bool
  memory :: "message list option"

record rag_result =
  rag_answer :: string
  rag_sources :: "string list"
  rag_source_documents :: "source_document list"
  rag_error :: "string option"

text \<open>
  \<open>collection.add\<close> of chromadb, for the versions that provide \<open>PersistentClient\<close>: an empty
  batch, lists of different lengths and ids repeated inside the batch raise; an id that
  the collection already holds is skipped, its stored item stays as it is; the other
  items are appended. A pending chunk is the chunk text, its source, its ordinal and
  its id (the parallel lists \<open>all_chunks\<close>, \<open>all_metadatas\<close>, \<open>all_ids\<close>).
\<close>

type_synonym pending = "string \<times> string \<times> nat \<times> string"

definition pending_id :: "pending \<Rightarrow> string" where
  "pending_id p = (case p of (chunk, source, i, ident) \<Rightarrow> ident)"

definition make_entry :: "pending \<Rightarrow> embedding \<Rightarrow> entry" where
  "make_entry p v =
     (case p of (chunk, source, i, ident) \<Rightarrow>
        \<lparr>entry_id = ident, entry_document = chunk, entry_embedding = v,
         entry_source = source, entry_chunk_id = i\<rparr>)"

definition collection_add :: "entry list \<Rightarrow> pending list \<Rightarrow> embedding list \<Rightarrow> exn + entry list" where
  "collection_add items batch embeddings =
     (if batch = [] then Inl (Exn ''ValueError'' ''Expected IDs to be a non-empty list'')
      else if length embeddings \<noteq> length batch
      then Inl (Exn ''ValueError'' ''Number of embeddings must match number of ids'')
      else if \<not> distinct (map pending_id batch)
      then Inl (Exn ''DuplicateIDError'' ''Expected IDs to be unique'')
      else Inr (items @
                filter (\<lambda>e. entry_id e \<notin> set (map entry_id items))
                       (map (\<lambda>(p, v). make_entry p v) (zip batch embeddings))))"

text \<open>The loop over the documents of \<open>RAGAgent.ingest_documents\<close>.\<close>

definition document_chunks :: "(string \<Rightarrow> string list) \<Rightarrow> document \<Rightarrow> string \<Rightarrow> pending list" where
  "document_chunks split d text =
     map (\<lambda>(i, chunk). (chunk, doc_name d, i, doc_stem d @ ''_chunk_'' @ str_nat i))
         (enumerate 0 (split text))"

fun process_documents :: "(string \<Rightarrow> string list) \<Rightarrow> document list \<Rightarrow> exn + pending list" where
  "process_documents split [] = Inr []"
| "process_documents split (d # ds) =
     (case doc_text d of
        Inl e \<Rightarrow> Inl e
      | Inr text \<Rightarrow>
          (case process_documents split ds of
             Inl e \<Rightarrow> Inl e
           | Inr rest \<Rightarrow> Inr (document_chunks split d text @ rest)))"

text \<open>\<open>RAGAgent.ingest_documents\<close>. Nothing in it deletes an item of the collection.\<close>

definition ingest_documents :: "world \<Rightarrow> rag_agent \<Rightarrow> bool \<Rightarrow> (exn + rag_agent) \<times> event list" where
  "ingest_documents w s force_reload =
     (if \<not> force_reload \<and> length (collection s) > 0 then (Inr s, [])
      else (case documents_dir w of
              None \<Rightarrow>
                (Inl (Exn ''FileNotFoundError''
                        (''Documents directory not found: '' @ documents_path w)), [])
            | Some docs \<Rightarrow>
                (case process_documents (split_text w) docs of
                   Inl e \<Rightarrow> (Inl e, [])
                 | Inr batch \<Rightarrow>
                     (let all_chunks = map fst batch; all_ids = map pending_id batch in
                      case encode w all_chunks of
                        Inl e \<Rightarrow> (Inl e, [Encode all_chunks])
                      | Inr embeddings \<Rightarrow>
                          (case collection_add (collection s) batch embeddings of
                             Inl e \<Rightarrow> (Inl e, [Encode all_chunks, CollectionAdd all_ids])
                           | Inr items \<Rightarrow>
                               (Inr (s\<lparr>collection := items\<rparr>),
                                [Encode all_chunks, CollectionAdd all_ids]))))))"

text \<open>\<open>RAGAgent.get_conversation_history\<close> and \<open>RAGAgent.clear_memory\<close>.\<close>

definition get_conversation_history :: "rag_agent \<Rightarrow> message list" where
  "get_conversation_history s = (case memory s of None \<Rightarrow> [] | Some messages \<Rightarrow> messages)"

definition clear_memory :: "rag_agent \<Rightarrow> rag_agent" where
  "clear_memory s = (case memory s of None \<Rightarrow> s | Some messages \<Rightarrow> s\<lparr>memory := Some []\<rparr>)"

text \<open>\<open>RAGAgent._initialize_conversation_chain\<close>: building the chain may raise; when it
  succeeds the memory starts empty.\<close>

definition initialize_conversation_chain :: "world \<Rightarrow> rag_agent \<Rightarrow> exn + rag_agent" where
  "initialize_conversation_chain w s =
     (if conversation_chain s then Inr s
      else (case chain_setup w of
              Some e \<Rightarrow> Inl e
            | None \<Rightarrow> Inr (s\<lparr>memory := Some [], conversation_chain := True\<rparr>)))"

definition rag_no_information :: rag_result where
  "rag_no_information =
     \<lparr>rag_answer = ''I couldn't find any relevant information in the policy documents.'',
      rag_sources = [], rag_source_documents = [], rag_error = None\<rparr>"

definition rag_failure :: "exn \<Rightarrow> rag_result" where
  "rag_failure e =
     \<lparr>rag_answer = ''I encountered an error: '' @ exn_str e,
      rag_sources = [], rag_source_documents = [], rag_error = Some (exn_str e)\<rparr>"

text \<open>\<open>RAGAgent._stateless_query\<close>. \<open>list(set(...))\<close> keeps one copy of each source; the
  order Python gives them is not fixed, the model keeps the order of \<open>remdups\<close>.\<close>

definition build_context :: "entry list \<Rightarrow> string" where
  "build_context results =
     join ([CHR 0x0A, CHR 0x0A] @ ''---'' @ [CHR 0x0A, CHR 0x0A])
          (map (\<lambda>r. ''From '' @ entry_source r @ '':'' @ [CHR 0x0A] @ entry_document r) results)"

definition stateless_query :: "world \<Rightarrow> rag_agent \<Rightarrow> string \<Rightarrow> (exn + rag_result) \<times> event list" where
  "stateless_query w s question =
     (case encode w [question] of
        Inl e \<Rightarrow> (Inl e, [Encode [question]])
      | Inr [] \<Rightarrow> (Inl (Exn ''IndexError'' ''index 0 is out of bounds''), [Encode [question]])
      | Inr (query_embedding # _) \<Rightarrow>
          (case collection_query w (collection s) query_embedding 5 of
             Inl e \<Rightarrow> (Inl e, [Encode [question], CollectionQuery 5])
           | Inr results \<Rightarrow>
               if results = [] then (Inr rag_no_information, [Encode [question], CollectionQuery 5])
               else (case generate w (PolicyPrompt (build_context results) question) of
                       (Inl e, evs) \<Rightarrow> (Inl e, [Encode [question], CollectionQuery 5] @ evs)
                     | (Inr answer, evs) \<Rightarrow>
                         (Inr \<lparr>rag_answer = answer,
                               rag_sources = remdups (map entry_source results),
                               rag_source_documents = [], rag_error = None\<rparr>,
                          [Encode [question], CollectionQuery 5] @ evs))))"

text \<open>
  \<open>RAGAgent.query\<close>. With \<open>use_memory\<close> the question goes to the conversational chain,
  which retrieves and generates by itself and, when it returns, has saved the turn in
  the memory; its answer and source documents are returned as they are.
\<close>

definition rag_agent_query ::
  "world \<Rightarrow> rag_agent \<Rightarrow> string \<Rightarrow> bool \<Rightarrow> rag_result \<times> rag_agent \<times> event list" where
  "rag_agent_query w s question use_memory =
     (if use_memory
      then (case initialize_conversation_chain w s of
              Inl e \<Rightarrow> (rag_failure e, s, [])
            | Inr s1 \<Rightarrow>
                (case run_chain w (get_conversation_history s1) question of
                   Inl e \<Rightarrow> (rag_failure e, s1, [ChainCall question])
                 | Inr result \<Rightarrow>
                     (\<lparr>rag_answer = chain_answer result,
                       rag_sources =
                         remdups (map (\<lambda>doc. get_or (metadata_source doc) ''Unknown'')
                                      (chain_source_documents result)),
                       rag_source_documents = chain_source_documents result,
                       rag_error = None\<rparr>,
                      s1\<lparr>memory :=
                           map_option (\<lambda>messages. messages @
                                         [HumanMessage question, AIMessage (chain_answer result)])
                                      (memory s1)\<rparr>,
                      [ChainCall question])))
      else (case stateless_query w s question of
              (Inl e, evs) \<Rightarrow> (rag_failure e, s, evs)
            | (Inr result, evs) \<Rightarrow> (result, s, evs)))"

section \<open>Orchestrator (orchestrator.py)\<close>

text \<open>The assistant owns the three handlers: the schema read by the structured-query
  handler, the state of the retrieval handler and \<open>search_enabled\<close> of the web handler.\<close>

record assistant =
  schema :: string
  rag :: rag_agent
  search_enabled :: bool

datatype metadata =
    SqlMetadata "string option" "dataframe option"
  | RagMetadata "string list" "string list"
  | WebMetadata "(string option \<times> string option) list" "hit list"
  | NoMetadata

record agent_result =
  answer :: string
  agent_used :: string
  metadata :: metadata
  error :: "string option"

text \<open>\<open>if force_agent:\<close> holds for a string that is not empty; \<open>None\<close> and the empty string
  leave the choice to the Router.\<close>

definition determine_agent ::
  "world \<Rightarrow> string \<Rightarrow> string option \<Rightarrow> (exn + string) \<times> event list" where
  "determine_agent w question force_agent =
     (case force_agent of
        None \<Rightarrow> (case route w question of (r, evs) \<Rightarrow> (r, Invoke Router question # evs))
      | Some name \<Rightarrow>
          if name \<noteq> [] then (Inr (upper name), [])
          else (case route w question of (r, evs) \<Rightarrow> (r, Invoke Router question # evs)))"

definition unknown_agent :: agent_result where
  "unknown_agent =
     \<lparr>answer = ''I couldn't determine how to handle your query. Please try rephrasing.'',
      agent_used = ''None'', metadata = NoMetadata, error = Some ''Unknown agent type''\<rparr>"

text \<open>The \<open>if\<close>/\<open>elif\<close> chain of \<open>CFOAssistant.query\<close>. The retrieval handler is called
  without \<open>use_memory\<close>, so with its default \<open>True\<close>; its result has no key \<open>chunks\<close>.\<close>

definition dispatch ::
  "world \<Rightarrow> assistant \<Rightarrow> string \<Rightarrow> string \<Rightarrow> agent_result \<times> assistant \<times> event list" where
  "dispatch w a agent_type question =
     (if agent_type = ''SQL''
      then (case sql_agent_query w (schema a) question of
              (result, evs) \<Rightarrow>
                (\<lparr>answer = sql_answer result, agent_used = ''SQL Database'',
                  metadata = SqlMetadata (sql_sql_query result) (sql_dataframe result),
                  error = sql_error result\<rparr>,
                 a, Invoke SqlAgent question # evs))
      else if agent_type = ''RAG''
      then (case rag_agent_query w (rag a) question True of
              (result, s, evs) \<Rightarrow>
                (\<lparr>answer = rag_answer result, agent_used = ''Policy Documents (RAG)'',
                  metadata = RagMetadata (rag_sources result) [],
                  error = rag_error result\<rparr>,
                 a\<lparr>rag := s\<rparr>, Invoke RagAgent question # evs))
      else if agent_type = ''WEB''
      then (case web_agent_query w (search_enabled a) question of
              (result, evs) \<Rightarrow>
                (\<lparr>answer = web_answer result, agent_used = ''Web Search'',
                  metadata = WebMetadata (web_sources result) (web_search_results result),
                  error = web_error result\<rparr>,
                 a, Invoke WebAgent question # evs))
      else (unknown_agent, a, []))"

text \<open>\<open>CFOAssistant.query\<close>. The parameter \<open>use_memory\<close> is not read.\<close>

definition query ::
  "world \<Rightarrow> assistant \<Rightarrow> string \<Rightarrow> string option \<Rightarrow> bool \<Rightarrow>
     (exn + agent_result) \<times> assistant \<times> event list" where
  "query w a question force_agent use_memory =
     (case determine_agent w question force_agent of
        (Inl e, ev1) \<Rightarrow> (Inl e, a, ev1)
      | (Inr agent_type, ev1) \<Rightarrow>
          (case dispatch w a agent_type question of
             (result, a', ev2) \<Rightarrow> (Inr result, a', ev1 @ ev2)))"

text \<open>An event is a classification when it is the call of the Router or the Router's
  request to the gateway.\<close>

fun classification :: "event \<Rightarrow> bool" where
  "classification (Invoke c q) = (c = Router)"
| "classification (GatewayCall req) = (case req of RoutePrompt q \<Rightarrow> True | _ \<Rightarrow> False)"
| "classification ev = False"

section \<open>Scenarios\<close>

text \<open>
  Concrete worlds and states for the examples below. In \<open>offline\<close> the gateway, the
  relational store, the search provider and the chain all raise, the embedding model
  and the splitter answer, and the documents directory does not exist; \<open>replying text\<close>
  is \<open>offline\<close> with a gateway that answers every request with \<open>text\<close>.
\<close>

definition offline :: world where
  "offline =
     \<lparr>messages_create = (\<lambda>req. Inl (Exn ''APIConnectionError'' ''Connection error.'')),
      read_sql_query = (\<lambda>sql. Inl (Exn ''DatabaseError'' ''no such table: companies'')),
      tavily_search = (\<lambda>q. Inl (Exn ''ConnectionError'' ''search provider unreachable'')),
      encode = (\<lambda>texts. Inr (map (\<lambda>t. [0]) texts)),
      split_text = (\<lambda>text. [text]),
      collection_query = (\<lambda>items v k. Inr (take k items)),
      chain_setup = None,
      run_chain = (\<lambda>history q. Inl (Exn ''APIConnectionError'' ''Connection error.'')),
      documents_path = ''data/documents'',
      documents_dir = None\<rparr>"

definition replying :: "string \<Rightarrow> world" where
  "replying text = offline\<lparr>messages_create := (\<lambda>req. Inr [text])\<rparr>"

definition chain_without_documents :: world where
  "chain_without_documents =
     offline\<lparr>run_chain := (\<lambda>history q.
        Inr \<lparr>chain_answer = ''The policy documents do not say.'',
             chain_source_documents = []\<rparr>)\<rparr>"

definition fresh_agent :: rag_agent where
  "fresh_agent = \<lparr>collection = [], conversation_chain = False, memory = None\<rparr>"

definition stored_chunk :: "string \<Rightarrow> string \<Rightarrow> string \<Rightarrow> entry" where
  "stored_chunk ident src text =
     \<lparr>entry_id = ident, entry_document = text, entry_embedding = [0],
      entry_source = src, entry_chunk_id = 0\<rparr>"

text \<open>An index built earlier from \<open>a.txt\<close> and \<open>b.txt\<close>; since then \<open>a.txt\<close> has been edited
  and \<open>b.txt\<close> removed.\<close>

definition loaded_agent :: rag_agent where
  "loaded_agent =
     fresh_agent\<lparr>collection :=
       [stored_chunk ''a_chunk_0'' ''a.txt'' ''Travel needs approval above 500.'',
        stored_chunk ''b_chunk_0'' ''b.txt'' ''Gifts are capped at 50.'']\<rparr>"

definition edited_documents :: world where
  "edited_documents =
     offline\<lparr>documents_dir :=
       Some [\<lparr>doc_name = ''a.txt'', doc_stem = ''a'',
              doc_text = Inr ''Travel needs approval above 900.''\<rparr>]\<rparr>"

definition assistant0 :: assistant where
  "assistant0 = \<lparr>schema = ''Table: companies'', rag = fresh_agent, search_enabled = False\<rparr>"

section \<open>Properties of the string operations\<close>

lemma startswith_prefix: "startswith s k \<longleftrightarrow> prefix k s"
  by (induction s k rule: startswith.induct) auto

lemma contains_sublist: "contains s k \<longleftrightarrow> sublist k s"
proof (induction s)
  case Nil
  show ?case by (cases k) auto
next
  case (Cons c s)
  show ?case
    by (simp add: Cons.IH startswith_prefix sublist_Cons_right del: startswith.simps)
qed

lemma list_ex_contains:
  "list_ex (\<lambda>k. contains s k) ks \<longleftrightarrow> (\<exists>k\<in>set ks. sublist k s)"
  by (simp add: list_ex_iff contains_sublist)

lemmas lower_eval = lower_def lower_char_def ascii_lowercase_def ascii_uppercase_def

lemmas upper_eval = upper_def upper_char_def ascii_lowercase_def ascii_uppercase_def

section \<open>Router: the keyword fallback\<close>

text \<open>
  C1. A query whose lower-cased text contains a structured-data keyword is classified
  SQL by the keyword fallback, whether or not it also contains a policy keyword; with
  no structured-data keyword and a policy keyword it is classified RAG; with neither
  it is classified WEB. Containment is the contiguous-sublist relation of the library.
\<close>

theorem default_routing_priority:
  "((\<exists>k\<in>set sql_keywords. sublist k (lower q)) \<longrightarrow> default_routing q = ''SQL'') \<and>
   (\<not> (\<exists>k\<in>set sql_keywords. sublist k (lower q)) \<and>
      (\<exists>k\<in>set policy_keywords. sublist k (lower q)) \<longrightarrow> default_routing q = ''RAG'') \<and>
   (\<not> (\<exists>k\<in>set sql_keywords. sublist k (lower q)) \<and>
      \<not> (\<exists>k\<in>set policy_keywords. sublist k (lower q)) \<longrightarrow> default_routing q = ''WEB'')"
  by (simp add: default_routing_def Let_def list_ex_contains)

text \<open>The three cases at concrete queries: both kinds of keyword, a policy keyword
  only, and neither.\<close>

theorem default_routing_priority_witness:
  "(\<exists>k\<in>set sql_keywords. sublist k (lower ''Show our revenue recognition policy'')) \<and>
   (\<exists>k\<in>set policy_keywords. sublist k (lower ''Show our revenue recognition policy'')) \<and>
   default_routing ''Show our revenue recognition policy'' = ''SQL'' \<and>
   \<not> (\<exists>k\<in>set sql_keywords. sublist k (lower ''What is our expense approval policy?'')) \<and>
   (\<exists>k\<in>set policy_keywords. sublist k (lower ''What is our expense approval policy?'')) \<and>
   default_routing ''What is our expense approval policy?'' = ''RAG'' \<and>
   \<not> (\<exists>k\<in>set sql_keywords. sublist k (lower ''Latest news about inflation'')) \<and>
   \<not> (\<exists>k\<in>set policy_keywords. sublist k (lower ''Latest news about inflation'')) \<and>
   default_routing ''Latest news about inflation'' = ''WEB''"
proof -
  have both_sql: "list_ex (contains (lower ''Show our revenue recognition policy'')) sql_keywords"
    by (simp add: lower_eval sql_keywords_def)
  have both_policy:
    "list_ex (contains (lower ''Show our revenue recognition policy'')) policy_keywords"
    by (simp add: lower_eval policy_keywords_def)
  have policy_no_sql:
    "\<not> list_ex (contains (lower ''What is our expense approval policy?'')) sql_keywords"
    by (simp add: lower_eval sql_keywords_def)
  have policy_yes:
    "list_ex (contains (lower ''What is our expense approval policy?'')) policy_keywords"
    by (simp add: lower_eval policy_keywords_def)
  have web_no_sql: "\<not> list_ex (contains (lower ''Latest news about inflation'')) sql_keywords"
    by (simp add: lower_eval sql_keywords_def)
  have web_no_policy:
    "\<not> list_ex (contains (lower ''Latest news about inflation'')) policy_keywords"
    by (simp add: lower_eval policy_keywords_def)
  show ?thesis
    using both_sql both_policy policy_no_sql policy_yes web_no_sql web_no_policy
      default_routing_priority [of "''Show our revenue recognition policy''"]
      default_routing_priority [of "''What is our expense approval policy?''"]
      default_routing_priority [of "''Latest news about inflation''"]
    unfolding list_ex_contains by blast
qed

section \<open>Router: the gateway call\<close>

lemma generate_events: "snd (generate w req) = [GatewayCall req]"
  by (simp add: generate_def split: sum.splits)

lemma route_events: "snd (route w q) = [GatewayCall (RoutePrompt q)]"
  by (simp add: route_def generate_def Let_def split: sum.splits)




section \<open>Retrieval handler: ingestion\<close>

lemma str_nat_0: "str_nat 0 = ''0''"
  by (simp add: str_nat.simps)

lemma ingest_keeps_prior_items:
  "fst (ingest_documents w s force_reload) = Inr s' \<Longrightarrow> prefix (collection s) (collection s')"
  by (auto simp: ingest_documents_def collection_add_def Let_def
      split: if_splits option.splits sum.splits)

lemma filter_known_ids: "filter (\<lambda>e. f e \<notin> set (map f xs)) xs = []"
  by (simp add: filter_empty_conv)

lemma force_reload_unchanged_documents:
  assumes "collection s = []" and "fst (ingest_documents w s force_reload) = Inr s1"
  shows "fst (ingest_documents w s1 True) = Inr s1"
  using assms
  by (auto simp: ingest_documents_def collection_add_def Let_def filter_known_ids
      split: if_splits option.splits sum.splits)

text \<open>
  C3 at a concrete index. The index holds one chunk of \<open>a.txt\<close> and one of \<open>b.txt\<close> from an
  earlier ingestion; \<open>a.txt\<close> has been edited and \<open>b.txt\<close> removed. Ingestion with
  \<open>force_reload = True\<close> embeds the new chunk and calls \<open>collection.add\<close>, and the index is
  exactly as before: the old text of \<open>a_chunk_0\<close> and the chunk of the removed document
  are still there, while a fresh ingestion of the current documents holds the new text
  of \<open>a_chunk_0\<close> only.
\<close>

theorem force_reload_keeps_stale_chunks:
  "ingest_documents edited_documents loaded_agent True =
     (Inr loaded_agent, [Encode [''Travel needs approval above 900.''], CollectionAdd [''a_chunk_0'']]) \<and>
   ingest_documents edited_documents fresh_agent True =
     (Inr (fresh_agent\<lparr>collection :=
        [stored_chunk ''a_chunk_0'' ''a.txt'' ''Travel needs approval above 900.'']\<rparr>),
      [Encode [''Travel needs approval above 900.''], CollectionAdd [''a_chunk_0'']])"
  by (simp add: ingest_documents_def edited_documents_def offline_def loaded_agent_def
      fresh_agent_def stored_chunk_def document_chunks_def collection_add_def pending_id_def
      make_entry_def enumerate_eq_zip str_nat_0)

text \<open>
  C6. With \<open>force_reload = False\<close> and an index that holds at least one chunk, ingestion
  returns the state as it is and makes no call: nothing is embedded and nothing is
  inserted. Hence a second ingestion with \<open>force_reload = False\<close> after one that returned
  changes nothing, whatever the documents are by then.
\<close>

theorem ingest_skips_loaded_index:
  "(collection s \<noteq> [] \<longrightarrow> ingest_documents w s False = (Inr s, [])) \<and>
   (fst (ingest_documents w s False) = Inr s1 \<longrightarrow> ingest_documents w' s1 False = (Inr s1, []))"
proof -
  have skip: "ingest_documents w0 s0 False = (Inr s0, [])" if "collection s0 \<noteq> []" for w0 s0
    using that by (simp add: ingest_documents_def)
  have loaded: "collection s1 \<noteq> []" if "fst (ingest_documents w s False) = Inr s1"
    using that
    by (auto simp: ingest_documents_def collection_add_def Let_def
        split: if_splits option.splits sum.splits)
  show ?thesis using skip loaded by blast
qed

theorem ingest_skips_loaded_index_witness:
  "collection loaded_agent \<noteq> [] \<and>
   ingest_documents edited_documents loaded_agent False = (Inr loaded_agent, []) \<and>
   fst (ingest_documents edited_documents fresh_agent False) =
     Inr (fresh_agent\<lparr>collection :=
        [stored_chunk ''a_chunk_0'' ''a.txt'' ''Travel needs approval above 900.'']\<rparr>) \<and>
   ingest_documents edited_documents
     (fresh_agent\<lparr>collection :=
        [stored_chunk ''a_chunk_0'' ''a.txt'' ''Travel needs approval above 900.'']\<rparr>) False =
     (Inr (fresh_agent\<lparr>collection :=
        [stored_chunk ''a_chunk_0'' ''a.txt'' ''Travel needs approval above 900.'']\<rparr>), [])"
proof -
  have n: "collection loaded_agent \<noteq> []"
    by (simp add: loaded_agent_def fresh_agent_def)
  have f: "fst (ingest_documents edited_documents fresh_agent False) =
     Inr (fresh_agent\<lparr>collection :=
        [stored_chunk ''a_chunk_0'' ''a.txt'' ''Travel needs approval above 900.'']\<rparr>)"
    by (simp add: ingest_documents_def edited_documents_def offline_def
      fresh_agent_def stored_chunk_def document_chunks_def collection_add_def pending_id_def
      make_entry_def enumerate_eq_zip str_nat_0)
  show ?thesis
    using n f
      ingest_skips_loaded_index [where s = loaded_agent and w = edited_documents]
      ingest_skips_loaded_index [where s = fresh_agent and w = edited_documents
        and w' = edited_documents and ?s1.0 = "fresh_agent\<lparr>collection :=
          [stored_chunk ''a_chunk_0'' ''a.txt'' ''Travel needs approval above 900.'']\<rparr>"]
    by simp
qed

section \<open>Retrieval handler: queries and memory\<close>

text \<open>
  The stateless branch (\<open>use_memory = False\<close>). When the top-k search returns no chunk
  the handler returns the fixed answer with no sources and no error, and the only calls
  made are the embedding of the question and the search: no request goes to the
  gateway.
\<close>

lemma stateless_branch_without_chunks:
  assumes "encode w [q] = Inr (v # vs)"
    and "collection_query w (collection s) v 5 = Inr []"
  shows "rag_agent_query w s q False =
           (rag_no_information, s, [Encode [q], CollectionQuery 5])"
    and "rag_sources rag_no_information = []"
    and "rag_error rag_no_information = None"
    and "\<forall>req. GatewayCall req \<notin> set (snd (snd (rag_agent_query w s q False)))"
  using assms
  by (simp_all add: rag_agent_query_def stateless_query_def rag_no_information_def)

lemma stateless_branch_empty_index:
  "rag_agent_query offline fresh_agent ''What is the travel policy?'' False =
     (rag_no_information, fresh_agent,
      [Encode [''What is the travel policy?''], CollectionQuery 5])"
proof -
  have e: "encode offline [''What is the travel policy?''] = Inr [[0]]"
    by (simp add: offline_def)
  have c: "collection_query offline (collection fresh_agent) [0] 5 = Inr []"
    by (simp add: offline_def fresh_agent_def)
  show ?thesis
    using stateless_branch_without_chunks(1) [OF e c] .
qed

text \<open>
  C4 at a concrete question, with memory (\<open>use_memory = True\<close>, the default and what the
  Orchestrator uses). The index is empty and the chain retrieves no document. The
  handler has handed the question to the conversational chain, which generated an
  answer, and returns that answer: not the fixed answer that the stateless branch of
  the same operation gives for an empty retrieval. The zero-chunk check of the
  stateless branch is missing from this branch.
\<close>

theorem conversational_query_without_chunks:
  "rag_agent_query chain_without_documents fresh_agent ''What is the travel policy?'' True =
     (\<lparr>rag_answer = ''The policy documents do not say.'', rag_sources = [],
       rag_source_documents = [], rag_error = None\<rparr>,
      \<lparr>collection = [], conversation_chain = True,
       memory = Some [HumanMessage ''What is the travel policy?'',
                      AIMessage ''The policy documents do not say.'']\<rparr>,
      [ChainCall ''What is the travel policy?'']) \<and>
   fst (rag_agent_query chain_without_documents fresh_agent ''What is the travel policy?'' True)
     \<noteq> rag_no_information"
  by (simp add: rag_agent_query_def initialize_conversation_chain_def chain_without_documents_def
      offline_def fresh_agent_def get_conversation_history_def rag_no_information_def)

text \<open>
  C9. \<open>clear_memory\<close> leaves an empty conversation history and changes nothing else: the
  collection (ids, texts and embeddings of its items) and the chain are as before, and
  the state differs from the old one in the memory field only.
\<close>

theorem clear_memory_frame:
  "get_conversation_history (clear_memory s) = [] \<and>
   collection (clear_memory s) = collection s \<and>
   conversation_chain (clear_memory s) = conversation_chain s \<and>
   clear_memory s = s\<lparr>memory := map_option (\<lambda>messages. []) (memory s)\<rparr>"
  by (simp add: clear_memory_def get_conversation_history_def split: option.splits)

section \<open>Handlers: calls made and errors reported\<close>

lemma sql_agent_events:
  "\<not> list_ex classification (snd (sql_agent_query w sc q))"
  by (auto simp: sql_agent_query_def generate_sql_def execute_query_def format_results_def
      generate_def split: prod.splits sum.splits if_splits)

lemma web_agent_events:
  "\<not> list_ex classification (snd (web_agent_query w en q))"
  by (auto simp: web_agent_query_def search_web_def generate_def
      split: prod.splits sum.splits if_splits option.splits)

lemma rag_agent_events:
  "\<not> list_ex classification (snd (snd (rag_agent_query w s q um)))"
  by (auto simp: rag_agent_query_def stateless_query_def generate_def
      split: prod.splits sum.splits if_splits option.splits list.splits)

lemma dispatch_events:
  "\<not> list_ex classification (snd (snd (dispatch w a t q)))"
  using sql_agent_events [of w "schema a" q] web_agent_events [of w "search_enabled a" q]
    rag_agent_events [of w "rag a" q True]
  by (auto simp: dispatch_def split: prod.splits)

lemma sql_agent_answer: "sql_error (fst (sql_agent_query w sc q)) \<noteq> None \<Longrightarrow>
    sql_answer (fst (sql_agent_query w sc q)) \<noteq> []"
  by (auto simp: sql_agent_query_def sql_failure_def split: prod.splits sum.splits)

lemma web_agent_answer: "web_error (fst (web_agent_query w en q)) \<noteq> None \<Longrightarrow>
    web_answer (fst (web_agent_query w en q)) \<noteq> []"
  by (auto simp: web_agent_query_def web_failure_def web_not_configured_def web_no_results_def
      split: prod.splits sum.splits if_splits)

lemma rag_agent_answer: "rag_error (fst (rag_agent_query w s q um)) \<noteq> None \<Longrightarrow>
    rag_answer (fst (rag_agent_query w s q um)) \<noteq> []"
  by (auto simp: rag_agent_query_def rag_failure_def stateless_query_def rag_no_information_def
      split: prod.splits sum.splits if_splits list.splits)

lemma dispatch_answer:
  "error (fst (dispatch w a t q)) \<noteq> None \<Longrightarrow> answer (fst (dispatch w a t q)) \<noteq> []"
  using sql_agent_answer [of w "schema a" q] web_agent_answer [of w "search_enabled a" q]
    rag_agent_answer [of w "rag a" q True]
  by (auto simp: dispatch_def unknown_agent_def split: prod.splits if_splits)

lemma query_override:
  "name \<noteq> [] \<Longrightarrow> query w a q (Some name) um =
     (case dispatch w a (upper name) q of (r, a', evs) \<Rightarrow> (Inr r, a', evs))"
  by (simp add: query_def determine_agent_def split: prod.splits)

text \<open>
  C8. With no search provider configured the web handler returns the fixed answer,
  which is not empty and says how to configure the provider, with the error
  \<open>Web search not configured\<close>, and makes no call. No result of the handler with a provider
  configured equals it; in particular a search that fails at run time gives the
  "nothing found" result, whose error field is empty.
\<close>

theorem web_not_configured_distinct:
  "web_agent_query w False q = (web_not_configured, []) \<and>
   web_error web_not_configured = Some ''Web search not configured'' \<and>
   web_answer web_not_configured \<noteq> [] \<and>
   contains (web_answer web_not_configured) ''Please add TAVILY_API_KEY to your .env file'' \<and>
   fst (web_agent_query w' True q') \<noteq> web_not_configured \<and>
   (tavily_search w' q' = Inl e \<longrightarrow>
      web_agent_query w' True q' = (web_no_results, [TavilySearch q'])) \<and>
   web_error web_no_results = None"
proof -
  have key: "contains (web_answer web_not_configured) ''Please add TAVILY_API_KEY to your .env file''"
    by (simp add: web_not_configured_def)
  have differ: "fst (web_agent_query w' True q') \<noteq> web_not_configured"
    by (auto simp: web_agent_query_def web_not_configured_def web_no_results_def web_failure_def
        split: prod.splits sum.splits)
  show ?thesis
    using key differ
    by (simp add: web_agent_query_def search_web_def web_not_configured_def web_no_results_def)
qed

theorem web_not_configured_distinct_witness:
  "tavily_search offline ''Latest news about inflation'' =
     Inl (Exn ''ConnectionError'' ''search provider unreachable'') \<and>
   web_agent_query offline True ''Latest news about inflation'' =
     (web_no_results, [TavilySearch ''Latest news about inflation'']) \<and>
   web_agent_query offline False ''Latest news about inflation'' = (web_not_configured, []) \<and>
   web_no_results \<noteq> web_not_configured"
proof -
  have t: "tavily_search offline ''Latest news about inflation'' =
     Inl (Exn ''ConnectionError'' ''search provider unreachable'')"
    by (simp add: offline_def)
  show ?thesis
    using t web_not_configured_distinct [where w = offline and w' = offline
        and q = "''Latest news about inflation''" and q' = "''Latest news about inflation''"
        and e = "Exn ''ConnectionError'' ''search provider unreachable''"]
    by (metis fst_conv)
qed

section \<open>Orchestrator\<close>

text \<open>
  C5. An override is supplied when \<open>force_agent\<close> is a string that is not empty, which is
  the test the code makes. Then the result is that of dispatching on the upper-cased
  override, no event of the run is a classification (neither the Router nor its gateway
  request), and an override naming a handler starts with the call of that handler.
  Without an override the run starts with the Router and its request to the gateway.
\<close>

theorem override_bypasses_router:
  "(name \<noteq> [] \<longrightarrow>
      query w a q (Some name) um =
        (case dispatch w a (upper name) q of (r, a', evs) \<Rightarrow> (Inr r, a', evs)) \<and>
      \<not> list_ex classification (snd (snd (query w a q (Some name) um))) \<and>
      (upper name = ''SQL'' \<longrightarrow>
         snd (snd (query w a q (Some name) um)) =
           Invoke SqlAgent q # snd (sql_agent_query w (schema a) q)) \<and>
      (upper name = ''RAG'' \<longrightarrow>
         snd (snd (query w a q (Some name) um)) =
           Invoke RagAgent q # snd (snd (rag_agent_query w (rag a) q True))) \<and>
      (upper name = ''WEB'' \<longrightarrow>
         snd (snd (query w a q (Some name) um)) =
           Invoke WebAgent q # snd (web_agent_query w (search_enabled a) q))) \<and>
   take 2 (snd (snd (query w a q None um))) = [Invoke Router q, GatewayCall (RoutePrompt q)]"
proof -
  have no_router: "\<not> list_ex classification (snd (snd (query w a q (Some name) um)))"
    if "name \<noteq> []"
    using that dispatch_events [of w a "upper name" q]
    by (auto simp: query_override split: prod.splits)
  have routed: "take 2 (snd (snd (query w a q None um))) =
      [Invoke Router q, GatewayCall (RoutePrompt q)]"
    using route_events [of w q]
    by (auto simp: query_def determine_agent_def split: prod.splits sum.splits)
  show ?thesis
    using no_router routed
    by (auto simp: query_override dispatch_def split: prod.splits)
qed


theorem override_bypasses_router_witness:
  "''rag'' \<noteq> [] \<and> upper ''rag'' = ''RAG'' \<and>
   snd (snd (query chain_without_documents assistant0 ''What is the travel policy?''
               (Some ''rag'') True)) =
     [Invoke RagAgent ''What is the travel policy?'', ChainCall ''What is the travel policy?''] \<and>
   \<not> list_ex classification
       (snd (snd (query chain_without_documents assistant0 ''What is the travel policy?''
                    (Some ''rag'') True))) \<and>
   ''Sql'' \<noteq> [] \<and> upper ''Sql'' = ''SQL'' \<and>
   snd (snd (query offline assistant0 ''Show revenue'' (Some ''Sql'') True)) =
     [Invoke SqlAgent ''Show revenue'',
      GatewayCall (SqlPrompt ''Table: companies'' ''Show revenue'')] \<and>
   ''web'' \<noteq> [] \<and> upper ''web'' = ''WEB'' \<and>
   snd (snd (query offline assistant0 ''Latest news'' (Some ''web'') True)) =
     [Invoke WebAgent ''Latest news'']"
proof -
  have n: "''rag'' \<noteq> []" "''Sql'' \<noteq> []" "''web'' \<noteq> []"
    by simp_all
  have u: "upper ''rag'' = ''RAG''" "upper ''Sql'' = ''SQL''" "upper ''web'' = ''WEB''"
    by (simp_all add: upper_eval)
  have r: "snd (snd (rag_agent_query chain_without_documents (rag assistant0)
                       ''What is the travel policy?'' True)) =
           [ChainCall ''What is the travel policy?'']"
    by (simp add: rag_agent_query_def initialize_conversation_chain_def
        chain_without_documents_def offline_def assistant0_def fresh_agent_def
        get_conversation_history_def)
  have sq: "snd (sql_agent_query offline (schema assistant0) ''Show revenue'') =
           [GatewayCall (SqlPrompt ''Table: companies'' ''Show revenue'')]"
    by (simp add: sql_agent_query_def generate_sql_def generate_def offline_def assistant0_def)
  have wb: "snd (web_agent_query offline (search_enabled assistant0) ''Latest news'') = []"
    by (simp add: web_agent_query_def assistant0_def)
  from n u override_bypasses_router [where name = "''rag''" and w = chain_without_documents
        and a = assistant0 and q = "''What is the travel policy?''" and um = True]
  have "\<not> list_ex classification
          (snd (snd (query chain_without_documents assistant0 ''What is the travel policy?''
                       (Some ''rag'') True)))"
    and "snd (snd (query chain_without_documents assistant0 ''What is the travel policy?''
                     (Some ''rag'') True)) =
         Invoke RagAgent ''What is the travel policy?'' #
         snd (snd (rag_agent_query chain_without_documents (rag assistant0)
                     ''What is the travel policy?'' True))"
    by blast+
  moreover
  from n u override_bypasses_router [where name = "''Sql''" and w = offline
        and a = assistant0 and q = "''Show revenue''" and um = True]
  have "snd (snd (query offline assistant0 ''Show revenue'' (Some ''Sql'') True)) =
         Invoke SqlAgent ''Show revenue'' #
         snd (sql_agent_query offline (schema assistant0) ''Show revenue'')"
    by blast
  moreover
  from n u override_bypasses_router [where name = "''web''" and w = offline
        and a = assistant0 and q = "''Latest news''" and um = True]
  have "snd (snd (query offline assistant0 ''Latest news'' (Some ''web'') True)) =
         Invoke WebAgent ''Latest news'' #
         snd (web_agent_query offline (search_enabled assistant0) ''Latest news'')"
    by blast
  ultimately show ?thesis
    using n u r sq wb by simp
qed

text \<open>
  C7. Whenever the agent type has been determined, \<open>query\<close> returns normally, whatever
  the handler did. The error field of the result is the error field of the handler's
  result and the answer is the handler's answer, for each of the three handlers; and
  in every result with an error the answer is not empty.
\<close>

theorem handler_error_passed_through:
  "fst (determine_agent w q fa) = Inr t \<longrightarrow>
     (case fst (query w a q fa um) of
        Inl e \<Rightarrow> False
      | Inr r \<Rightarrow>
          (t = ''SQL'' \<longrightarrow>
             error r = sql_error (fst (sql_agent_query w (schema a) q)) \<and>
             answer r = sql_answer (fst (sql_agent_query w (schema a) q))) \<and>
          (t = ''RAG'' \<longrightarrow>
             error r = rag_error (fst (rag_agent_query w (rag a) q True)) \<and>
             answer r = rag_answer (fst (rag_agent_query w (rag a) q True))) \<and>
          (t = ''WEB'' \<longrightarrow>
             error r = web_error (fst (web_agent_query w (search_enabled a) q)) \<and>
             answer r = web_answer (fst (web_agent_query w (search_enabled a) q))) \<and>
          (error r \<noteq> None \<longrightarrow> answer r \<noteq> []))"
proof
  assume t: "fst (determine_agent w q fa) = Inr t"
  then have q: "fst (query w a q fa um) = Inr (fst (dispatch w a t q))"
    by (auto simp: query_def split: prod.splits sum.splits)
  have shape:
    "(t = ''SQL'' \<longrightarrow>
        error (fst (dispatch w a t q)) = sql_error (fst (sql_agent_query w (schema a) q)) \<and>
        answer (fst (dispatch w a t q)) = sql_answer (fst (sql_agent_query w (schema a) q))) \<and>
     (t = ''RAG'' \<longrightarrow>
        error (fst (dispatch w a t q)) = rag_error (fst (rag_agent_query w (rag a) q True)) \<and>
        answer (fst (dispatch w a t q)) = rag_answer (fst (rag_agent_query w (rag a) q True))) \<and>
     (t = ''WEB'' \<longrightarrow>
        error (fst (dispatch w a t q)) = web_error (fst (web_agent_query w (search_enabled a) q)) \<and>
        answer (fst (dispatch w a t q)) = web_answer (fst (web_agent_query w (search_enabled a) q)))"
    by (auto simp: dispatch_def split: prod.splits)
  show "case fst (query w a q fa um) of
        Inl e \<Rightarrow> False
      | Inr r \<Rightarrow>
          (t = ''SQL'' \<longrightarrow>
             error r = sql_error (fst (sql_agent_query w (schema a) q)) \<and>
             answer r = sql_answer (fst (sql_agent_query w (schema a) q))) \<and>
          (t = ''RAG'' \<longrightarrow>
             error r = rag_error (fst (rag_agent_query w (rag a) q True)) \<and>
             answer r = rag_answer (fst (rag_agent_query w (rag a) q True))) \<and>
          (t = ''WEB'' \<longrightarrow>
             error r = web_error (fst (web_agent_query w (search_enabled a) q)) \<and>
             answer r = web_answer (fst (web_agent_query w (search_enabled a) q))) \<and>
          (error r \<noteq> None \<longrightarrow> answer r \<noteq> [])"
    using shape dispatch_answer [of w a t q] by (simp add: q)
qed

theorem handler_error_passed_through_witness:
  "fst (determine_agent offline ''Show top 5 companies by revenue'' (Some ''sql'')) = Inr ''SQL'' \<and>
   sql_error (fst (sql_agent_query offline (schema assistant0) ''Show top 5 companies by revenue''))
     = Some ''Connection error.'' \<and>
   (case fst (query offline assistant0 ''Show top 5 companies by revenue'' (Some ''sql'') True) of
      Inl e \<Rightarrow> False
    | Inr r \<Rightarrow> error r = Some ''Connection error.'' \<and>
              answer r = ''I encountered an error: Connection error.'') \<and>
   fst (determine_agent (replying ''RAG'') ''What is the travel policy?'' None) = Inr ''RAG'' \<and>
   (case fst (query (replying ''RAG'') assistant0 ''What is the travel policy?'' None True) of
      Inl e \<Rightarrow> False
    | Inr r \<Rightarrow> error r = Some ''Connection error.'' \<and>
              answer r = ''I encountered an error: Connection error.'') \<and>
   fst (determine_agent offline ''Latest news'' (Some ''web'')) = Inr ''WEB'' \<and>
   (case fst (query offline assistant0 ''Latest news'' (Some ''web'') True) of
      Inl e \<Rightarrow> False
    | Inr r \<Rightarrow> error r = Some ''Web search not configured'' \<and> answer r \<noteq> [])"
proof -
  have d: "fst (determine_agent offline ''Show top 5 companies by revenue'' (Some ''sql'')) =
             Inr ''SQL''"
    by (simp add: determine_agent_def upper_eval)
  have e: "fst (sql_agent_query offline (schema assistant0) ''Show top 5 companies by revenue'') =
             sql_failure (Exn ''APIConnectionError'' ''Connection error.'')"
    by (simp add: sql_agent_query_def generate_sql_def generate_def offline_def)
  have s: "strip ''RAG'' = ''RAG''"
    by (simp add: strip_def rstrip_chars_def whitespace_def)
  have d2: "fst (determine_agent (replying ''RAG'') ''What is the travel policy?'' None) =
              Inr ''RAG''"
    by (simp add: determine_agent_def route_def generate_def first_text_def replying_def
        offline_def s upper_eval)
  have e2: "fst (rag_agent_query (replying ''RAG'') (rag assistant0)
                   ''What is the travel policy?'' True) =
              rag_failure (Exn ''APIConnectionError'' ''Connection error.'')"
    by (simp add: rag_agent_query_def initialize_conversation_chain_def replying_def offline_def
        assistant0_def fresh_agent_def)
  have d3: "fst (determine_agent offline ''Latest news'' (Some ''web'')) = Inr ''WEB''"
    by (simp add: determine_agent_def upper_eval)
  have e3: "fst (web_agent_query offline (search_enabled assistant0) ''Latest news'') =
              web_not_configured"
    by (simp add: web_agent_query_def assistant0_def)
  show ?thesis
    using d e d2 e2 d3 e3
      handler_error_passed_through [where w = offline and q = "''Show top 5 companies by revenue''"
        and fa = "Some ''sql''" and t = "''SQL''" and a = assistant0 and um = True]
      handler_error_passed_through [where w = "replying ''RAG''"
        and q = "''What is the travel policy?''" and fa = None and t = "''RAG''"
        and a = assistant0 and um = True]
      handler_error_passed_through [where w = offline and q = "''Latest news''"
        and fa = "Some ''web''" and t = "''WEB''" and a = assistant0 and um = True]
    by (simp add: sql_failure_def rag_failure_def web_not_configured_def split: sum.splits)
qed

text \<open>
  C10, as the code has it. Overrides that are not empty and have the same upper-cased
  text give the same run, so \<open>sql\<close> and \<open>SQL\<close> select the same handler. An override that is
  not empty and does not upper-case to SQL, RAG or WEB invokes no handler and gives the
  unknown-handler result (agent \<open>None\<close>, an answer that is not empty, the error
  \<open>Unknown agent type\<close>, no metadata). The empty override is no override: the run is that
  of a query without override.
\<close>

theorem override_case_and_unknown:
  "(name \<noteq> [] \<and> name' \<noteq> [] \<and> upper name = upper name' \<longrightarrow>
      query w a q (Some name) um = query w a q (Some name') um) \<and>
   upper ''sql'' = ''SQL'' \<and> upper ''SQL'' = ''SQL'' \<and>
   (name \<noteq> [] \<and> upper name \<notin> set [''SQL'', ''RAG'', ''WEB''] \<longrightarrow>
      query w a q (Some name) um = (Inr unknown_agent, a, [])) \<and>
   agent_used unknown_agent = ''None'' \<and> answer unknown_agent \<noteq> [] \<and>
   error unknown_agent = Some ''Unknown agent type'' \<and> metadata unknown_agent = NoMetadata \<and>
   query w a q (Some []) um = query w a q None um"
proof -
  have u: "upper ''sql'' = ''SQL'' \<and> upper ''SQL'' = ''SQL''"
    by (simp add: upper_eval)
  show ?thesis
    using u
    by (auto simp: query_override dispatch_def unknown_agent_def query_def determine_agent_def)
qed

theorem override_case_and_unknown_witness:
  "''sql'' \<noteq> [] \<and> ''SQL'' \<noteq> [] \<and> upper ''sql'' = upper ''SQL'' \<and>
   query offline assistant0 ''Show revenue'' (Some ''sql'') True =
     query offline assistant0 ''Show revenue'' (Some ''SQL'') True \<and>
   ''csv'' \<noteq> [] \<and> upper ''csv'' \<notin> set [''SQL'', ''RAG'', ''WEB''] \<and>
   query offline assistant0 ''Show revenue'' (Some ''csv'') True = (Inr unknown_agent, assistant0, [])"
proof -
  have u: "upper ''sql'' = upper ''SQL''"
    by (simp add: upper_eval)
  have c: "upper ''csv'' \<notin> set [''SQL'', ''RAG'', ''WEB'']"
    by (simp add: upper_eval)
  show ?thesis
    using u c
      override_case_and_unknown [where name = "''sql''" and name' = "''SQL''" and w = offline
        and a = assistant0 and q = "''Show revenue''" and um = True]
      override_case_and_unknown [where name = "''csv''" and w = offline
        and a = assistant0 and q = "''Show revenue''" and um = True]
    by simp
qed

text \<open>
  C10, as stated, fails at the empty override string: it does not upper-case to a
  handler name, yet the Router is consulted and the handler it names is invoked.
\<close>

theorem empty_override_reaches_router:
  "upper [] \<notin> set [''SQL'', ''RAG'', ''WEB''] \<and>
   query (replying ''WEB'') assistant0 ''Latest news about inflation'' (Some []) True =
     (Inr \<lparr>answer = web_answer web_not_configured, agent_used = ''Web Search'',
           metadata = WebMetadata [] [], error = Some ''Web search not configured''\<rparr>,
      assistant0,
      [Invoke Router ''Latest news about inflation'',
       GatewayCall (RoutePrompt ''Latest news about inflation''),
       Invoke WebAgent ''Latest news about inflation'']) \<and>
   fst (query (replying ''WEB'') assistant0 ''Latest news about inflation'' (Some []) True)
     \<noteq> Inr unknown_agent"
proof -
  have s: "strip ''WEB'' = ''WEB''"
    by (simp add: strip_def rstrip_chars_def whitespace_def)
  have r: "route (replying ''WEB'') ''Latest news about inflation'' =
      (Inr ''WEB'', [GatewayCall (RoutePrompt ''Latest news about inflation'')])"
    by (simp add: route_def generate_def first_text_def replying_def offline_def s upper_eval)
  show ?thesis
    by (simp add: query_def determine_agent_def r dispatch_def web_agent_query_def assistant0_def
        web_not_configured_def unknown_agent_def upper_def)
qed

end
